theory Spec2Isabelle
  imports Complex_Main
begin

section \<open>PriceAnalyzer: bounded price history and purchase recommendation\<close>

text \<open>
  A shallow embedding of \<^verbatim>\<open>src/dsa/price_trend.py\<close>.

  Numbers. The history holds Python integers (\<^typ>\<open>int\<close>). Every other number of the
  source (the current price, the random draws, the mean, \<^verbatim>\<open>diff_percent\<close>) is modelled as
  an exact rational (\<^typ>\<open>rat\<close>): the rounding of binary floating point, its infinities
  and NaN are not part of the model. The concrete inputs at which the code is shown to
  depart from its description are chosen so that the floating-point computation of the
  source takes the same branch and stores the same integers as the exact one.

  Randomness. The module-level generator is made an explicit parameter: the index that
  \<^verbatim>\<open>random.choice\<close> selects, and for each loop iteration the unit draw behind
  \<^verbatim>\<open>random.uniform\<close>.

  Errors. Every exception the modelled code can raise is a value of \<open>py_error\<close>, and a
  function that can raise returns \<open>py_error + 'a\<close>.
\<close>

subsection \<open>Python primitives used by the module\<close>

datatype py_error = ValueError | ZeroDivisionError | StatisticsError | OverflowError

text \<open>\<^verbatim>\<open>collections.deque(maxlen=n)\<close>: the items, oldest first, and the bound.\<close>

record deque =
  items :: "int list"
  maxlen :: int

definition deque_new :: "int \<Rightarrow> py_error + deque" where
  \<comment> \<open>\<^verbatim>\<open>deque(maxlen=n)\<close> raises ValueError for a negative bound.\<close>
  "deque_new n = (if n < 0 then Inl ValueError else Inr \<lparr>items = [], maxlen = n\<rparr>)"

definition deque_clear :: "deque \<Rightarrow> deque" where
  "deque_clear d = d\<lparr>items := []\<rparr>"

definition deque_append :: "deque \<Rightarrow> int \<Rightarrow> deque" where
  \<comment> \<open>append on the right; a deque that has grown beyond its bound drops its oldest item\<close>
  "deque_append d x =
     (let ys = items d @ [x]
      in d\<lparr>items := (if maxlen d < int (length ys) then tl ys else ys)\<rparr>)"

definition py_int :: "rat \<Rightarrow> int" where
  \<comment> \<open>\<^verbatim>\<open>int(x)\<close>: the fractional part is discarded, towards zero\<close>
  "py_int x = (if x < 0 then - \<lfloor>- x\<rfloor> else \<lfloor>x\<rfloor>)"

definition uniform :: "rat \<Rightarrow> rat \<Rightarrow> rat \<Rightarrow> rat" where
  \<comment> \<open>\<^verbatim>\<open>random.uniform(a, b)\<close> is \<^verbatim>\<open>a + (b - a) * random()\<close>; \<open>u\<close> is the unit draw\<close>
  "uniform a b u = a + (b - a) * u"

definition random_choice :: "'a list \<Rightarrow> nat \<Rightarrow> 'a" where
  \<comment> \<open>\<^verbatim>\<open>random.choice(seq)\<close> with the index \<open>k < len(seq)\<close> that the generator selects\<close>
  "random_choice seq k = seq ! k"

definition mean :: "int list \<Rightarrow> py_error + rat" where
  \<comment> \<open>\<^verbatim>\<open>statistics.mean\<close>: the exact sum over the count (an int when the quotient is
      integral, a float otherwise: one rational here); no data is a StatisticsError\<close>
  "mean xs =
     (if xs = [] then Inl StatisticsError
      else Inr (of_int (sum_list xs) / of_int (int (length xs))))"

definition min_py :: "int list \<Rightarrow> py_error + int" where
  "min_py xs = (case xs of [] \<Rightarrow> Inl ValueError | x # ys \<Rightarrow> Inr (fold min ys x))"

definition max_py :: "int list \<Rightarrow> py_error + int" where
  "max_py xs = (case xs of [] \<Rightarrow> Inl ValueError | x # ys \<Rightarrow> Inr (fold max ys x))"

definition truediv :: "rat \<Rightarrow> rat \<Rightarrow> py_error + rat" where
  "truediv a b = (if b = 0 then Inl ZeroDivisionError else Inr (a / b))"

text \<open>Decimal digits of a natural number, and the format \<^verbatim>\<open>:.1f\<close>: one digit after the
  point, the nearest tenth, a tie going to the even neighbour.\<close>

fun digits :: "nat \<Rightarrow> string" where
  "digits n =
     (if n < 10 then [''0123456789'' ! n]
      else digits (n div 10) @ [''0123456789'' ! (n mod 10)])"

definition round_half_even :: "rat \<Rightarrow> int" where
  "round_half_even t =
     (let n = \<lfloor>t\<rfloor>; r = t - of_int n
      in if r < 1 / 2 then n
         else if 1 / 2 < r then n + 1
         else if even n then n else n + 1)"

definition format_1f :: "rat \<Rightarrow> string" where
  "format_1f x =
     (let n = nat (round_half_even (abs x * 10))
      in (if x < 0 then ''-'' else []) @ digits (n div 10) @ ''.'' @ digits (n mod 10))"

subsection \<open>The class\<close>

record PriceAnalyzer =
  history_size :: int
  price_queue :: deque

definition PriceAnalyzer_init :: "int \<Rightarrow> py_error + PriceAnalyzer" where
  "PriceAnalyzer_init n =
     (case deque_new n of
        Inl e \<Rightarrow> Inl e
      | Inr q \<Rightarrow> Inr \<lparr>history_size = n, price_queue = q\<rparr>)"

definition simulated_price :: "string \<Rightarrow> int \<Rightarrow> rat \<Rightarrow> rat \<Rightarrow> nat \<Rightarrow> int" where
  \<comment> \<open>the body of the loop up to the append, for loop index \<open>i\<close> and unit draw \<open>u\<close>\<close>
  "simulated_price trend hsize base_price u i =
     (if trend = ''stable'' then
        (let variation = uniform 0.95 1.05 u
         in py_int (base_price * variation))
      else if trend = ''increasing'' then
        (let factor = 1.0 - (0.02 * of_int (hsize - int i));
             noise = uniform 0.98 1.02 u
         in py_int (base_price * factor * noise))
      else
        (let factor = 1.0 + (0.02 * of_int (hsize - int i));
             noise = uniform 0.98 1.02 u
         in py_int (base_price * factor * noise)))"

definition generate_simulated_history ::
  "PriceAnalyzer \<Rightarrow> nat \<Rightarrow> (nat \<Rightarrow> rat) \<Rightarrow> rat \<Rightarrow> int list \<times> PriceAnalyzer" where
  \<comment> \<open>\<open>k\<close>: the index \<^verbatim>\<open>random.choice\<close> selects; \<open>rnd i\<close>: the unit draw of iteration \<open>i\<close>.
      Returns the list handed to the caller and the analyzer after the call.\<close>
  "generate_simulated_history self k rnd current_price =
     (let q0 = deque_clear (price_queue self);
          trend = random_choice [''stable'', ''increasing'', ''decreasing''] k;
          base_price = current_price;
          q = fold (\<lambda>i q. deque_append q
                      (simulated_price trend (history_size self) base_price (rnd i) i))
                [0..<nat (history_size self)] q0
      in (items q, self\<lparr>price_queue := q\<rparr>))"

definition label_buy_now :: string where
  "label_buy_now = [CHR 0xF0, CHR 0x9F, CHR 0x94, CHR 0xA5] @ '' BUY NOW''"

definition label_buy :: string where
  "label_buy = [CHR 0xE2, CHR 0x9C, CHR 0x85] @ '' BUY''"

definition label_wait_high :: string where
  "label_wait_high = [CHR 0xF0, CHR 0x9F, CHR 0x9B, CHR 0x91] @ '' WAIT''"

definition label_wait :: string where
  "label_wait = [CHR 0xE2, CHR 0x8F, CHR 0xB3] @ '' WAIT''"

definition analyze_recommendation ::
  "PriceAnalyzer \<Rightarrow> rat \<Rightarrow> py_error + (string \<times> string)" where
  "analyze_recommendation self current_price =
     (let q = items (price_queue self) in
      if q = [] then Inr (''UNKNOWN'', ''Not enough data'')
      else
        (case mean q of Inl e \<Rightarrow> Inl e | Inr avg_price \<Rightarrow>
        (case min_py q of Inl e \<Rightarrow> Inl e | Inr min_history \<Rightarrow>
        (case max_py q of Inl e \<Rightarrow> Inl e | Inr max_history \<Rightarrow>
        (case truediv (current_price - avg_price) avg_price of Inl e \<Rightarrow> Inl e | Inr d \<Rightarrow>
          (let diff_percent = d * 100 in
           if current_price < of_int min_history then
             Inr (label_buy_now, ''Lowest price in recent history! Great deal.'')
           else if diff_percent < - 5 then
             Inr (label_buy, ''Price is '' @ format_1f (abs diff_percent) @ ''% below average.'')
           else if diff_percent < 0 then
             Inr (label_buy, ''Price is slighty below average.'')
           else if 10 < diff_percent then
             Inr (label_wait_high,
                  ''Price is '' @ format_1f diff_percent @ ''% above average. Likely to drop.'')
           else
             Inr (label_wait, ''Price is average. You might find a better deal soon.'')))))))"

definition get_history :: "PriceAnalyzer \<Rightarrow> int list" where
  "get_history self = items (price_queue self)"

subsection \<open>Sequences of calls, and the class invariant\<close>

text \<open>
  \<^verbatim>\<open>generate_simulated_history\<close> is the only method that changes an analyzer. A list of
  calls, each with its own random choice, draws and price, is run from left to right.
\<close>

definition generate_calls ::
  "PriceAnalyzer \<Rightarrow> (nat \<times> (nat \<Rightarrow> rat) \<times> rat) list \<Rightarrow> PriceAnalyzer" where
  "generate_calls self calls =
     fold (\<lambda>(k, rnd, current_price) a. snd (generate_simulated_history a k rnd current_price))
       calls self"

definition invar :: "PriceAnalyzer \<Rightarrow> bool" where
  \<comment> \<open>the constructor passes \<^verbatim>\<open>history_size\<close> as the bound of the deque\<close>
  "invar self \<longleftrightarrow> maxlen (price_queue self) = history_size self"

subsection \<open>The generation rule as the specification words it\<close>


definition discard_fraction :: "rat \<Rightarrow> int" where
  "discard_fraction x = (if 0 \<le> x then \<lfloor>x\<rfloor> else \<lceil>x\<rceil>)"


section \<open>Properties\<close>

subsection \<open>The bounded deque under the generation loop\<close>

lemma deque_append_fits:
  "int (length (items q)) < maxlen q \<Longrightarrow> deque_append q x = q\<lparr>items := items q @ [x]\<rparr>"
  by (simp add: deque_append_def)

lemma fold_deque_append:
  "int (length (items q) + length js) \<le> maxlen q \<Longrightarrow>
   fold (\<lambda>i q. deque_append q (f i)) js q = q\<lparr>items := items q @ map f js\<rparr>"
proof (induction js arbitrary: q)
  case Nil
  then show ?case by simp
next
  case (Cons j js)
  from Cons.prems have fits: "int (length (items q)) < maxlen q" by simp
  let ?q = "q\<lparr>items := items q @ [f j]\<rparr>"
  from Cons.prems have "int (length (items ?q) + length js) \<le> maxlen ?q" by simp
  then have "fold (\<lambda>i q. deque_append q (f i)) js ?q = ?q\<lparr>items := items ?q @ map f js\<rparr>"
    by (rule Cons.IH)
  with fits show ?case by (simp add: deque_append_fits)
qed

lemma deque_append_clear: "(deque_append q x)\<lparr>items := []\<rparr> = q\<lparr>items := []\<rparr>"
  by (simp add: deque_append_def Let_def)

lemma fold_deque_append_clear:
  "(fold (\<lambda>i q. deque_append q (f i)) js q)\<lparr>items := []\<rparr> = q\<lparr>items := []\<rparr>"
  by (induction js arbitrary: q) (simp_all add: deque_append_clear)

text \<open>With the bound equal to \<open>history_size\<close> nothing is evicted: the loop stores one entry
  per index, in index order.\<close>

lemma generate_closed_form:
  assumes "maxlen (price_queue self) = history_size self"
  shows "generate_simulated_history self k rnd cp =
    (let h = map (\<lambda>i. simulated_price
                         (random_choice [''stable'', ''increasing'', ''decreasing''] k)
                         (history_size self) cp (rnd i) i)
               [0..<nat (history_size self)]
     in (h, self\<lparr>price_queue := \<lparr>items = h, maxlen = history_size self\<rparr>\<rparr>))"
proof -
  let ?q0 = "deque_clear (price_queue self)"
  let ?f = "\<lambda>i. simulated_price (random_choice [''stable'', ''increasing'', ''decreasing''] k)
                 (history_size self) cp (rnd i) i"
  let ?js = "[0..<nat (history_size self)]"
  have q0: "items ?q0 = []" "maxlen ?q0 = history_size self"
    using assms by (simp_all add: deque_clear_def)
  have "fold (\<lambda>i q. deque_append q (?f i)) ?js ?q0 = ?q0\<lparr>items := items ?q0 @ map ?f ?js\<rparr>"
  proof (cases "0 \<le> history_size self")
    case True
    then have "int (length (items ?q0) + length ?js) \<le> maxlen ?q0"
      using q0 by simp
    then show ?thesis by (rule fold_deque_append)
  next
    case False
    then have "?js = []" by simp
    then show ?thesis using q0 by simp
  qed
  also have "\<dots> = \<lparr>items = map ?f ?js, maxlen = history_size self\<rparr>"
    using assms by (simp add: deque_clear_def)
  finally show ?thesis
    by (simp add: generate_simulated_history_def Let_def)
qed

lemma generate_forgets:
  "generate_simulated_history (snd (generate_simulated_history self k' rnd' cp')) k rnd cp =
   generate_simulated_history self k rnd cp"
  by (simp add: generate_simulated_history_def Let_def deque_clear_def fold_deque_append_clear)

lemma init_invar:
  "PriceAnalyzer_init n = Inr a \<Longrightarrow>
   invar a \<and> history_size a = n \<and> 0 \<le> n \<and> items (price_queue a) = []"
  by (auto simp: PriceAnalyzer_init_def deque_new_def invar_def split: if_splits)

lemma generate_invar:
  "invar self \<Longrightarrow>
   invar (snd (generate_simulated_history self k rnd cp)) \<and>
   history_size (snd (generate_simulated_history self k rnd cp)) = history_size self"
  by (simp add: invar_def generate_closed_form Let_def)

lemma generate_calls_invar:
  "invar self \<Longrightarrow>
   invar (generate_calls self calls) \<and>
   history_size (generate_calls self calls) = history_size self"
proof (induction calls arbitrary: self)
  case Nil
  then show ?case by (simp add: generate_calls_def)
next
  case (Cons c calls)
  obtain k rnd cp where c: "c = (k, rnd, cp)" by (cases c)
  let ?a = "snd (generate_simulated_history self k rnd cp)"
  have "invar ?a" "history_size ?a = history_size self"
    using generate_invar [OF Cons.prems] by simp_all
  moreover have "generate_calls self (c # calls) = generate_calls ?a calls"
    by (simp add: generate_calls_def c)
  ultimately show ?case using Cons.IH [of ?a] by simp
qed

lemma constructed_invar:
  assumes "PriceAnalyzer_init n = Inr a0"
  shows "maxlen (price_queue (generate_calls a0 calls)) = history_size (generate_calls a0 calls)"
    and "history_size (generate_calls a0 calls) = n"
proof -
  from init_invar [OF assms] have "invar a0" "history_size a0 = n" by simp_all
  with generate_calls_invar [of a0 calls]
  show "maxlen (price_queue (generate_calls a0 calls)) = history_size (generate_calls a0 calls)"
    and "history_size (generate_calls a0 calls) = n"
    by (simp_all add: invar_def)
qed

subsection \<open>Mean, minimum and the branches of the recommendation\<close>

lemma min_py_Min:
  assumes "xs \<noteq> []"
  shows "min_py xs = Inr (Min (set xs))"
proof (cases xs)
  case Nil
  with assms show ?thesis by simp
next
  case (Cons x ys)
  have "fold min ys x = Min (set (x # ys))" by (rule Min.set_eq_fold [symmetric])
  with Cons show ?thesis by (simp add: min_py_def)
qed

lemma max_py_Max:
  assumes "xs \<noteq> []"
  shows "max_py xs = Inr (Max (set xs))"
proof (cases xs)
  case Nil
  with assms show ?thesis by simp
next
  case (Cons x ys)
  have "fold max ys x = Max (set (x # ys))" by (rule Max.set_eq_fold [symmetric])
  with Cons show ?thesis by (simp add: max_py_def)
qed



text \<open>On a history with a non-zero mean no error is raised, and the result is the
  \<^verbatim>\<open>if\<close>/\<^verbatim>\<open>elif\<close> chain over the current price, the mean and the minimum.\<close>

lemma analyze_nonempty:
  assumes "mean (get_history self) = Inr avg" and "avg \<noteq> 0"
      and "min_py (get_history self) = Inr m"
  shows "analyze_recommendation self cp =
     (let diff_percent = (cp - avg) / avg * 100 in
      if cp < of_int m then
        Inr (label_buy_now, ''Lowest price in recent history! Great deal.'')
      else if diff_percent < - 5 then
        Inr (label_buy, ''Price is '' @ format_1f (abs diff_percent) @ ''% below average.'')
      else if diff_percent < 0 then
        Inr (label_buy, ''Price is slighty below average.'')
      else if 10 < diff_percent then
        Inr (label_wait_high,
             ''Price is '' @ format_1f diff_percent @ ''% above average. Likely to drop.'')
      else
        Inr (label_wait, ''Price is average. You might find a better deal soon.''))"
proof -
  from assms(1) have ne: "items (price_queue self) \<noteq> []"
    by (auto simp: mean_def get_history_def)
  then have "max_py (items (price_queue self)) = Inr (Max (set (items (price_queue self))))"
    by (rule max_py_Max)
  with assms ne show ?thesis
    by (simp add: analyze_recommendation_def get_history_def truediv_def Let_def)
qed



lemma analyze_zero_sum:
  assumes "get_history self \<noteq> []" and "sum_list (get_history self) = 0"
  shows "analyze_recommendation self x = Inl ZeroDivisionError"
proof -
  from assms(1)
  have "max_py (items (price_queue self)) = Inr (Max (set (items (price_queue self))))"
    "min_py (items (price_queue self)) = Inr (Min (set (items (price_queue self))))"
    by (simp_all add: max_py_Max min_py_Min get_history_def)
  with assms show ?thesis
    by (simp add: analyze_recommendation_def get_history_def mean_def truediv_def)
qed

lemma mean_replicate_100: "mean (replicate 15 100) = Inr 100"
  by code_simp

lemma min_py_replicate_100: "min_py (replicate 15 100) = Inr 100"
  by code_simp

lemma format_1f_11: "format_1f 11 = ''11.0''"
  by code_simp

subsection \<open>The generated prices\<close>



lemma simulated_price_zero: "simulated_price trend n 0 u i = 0"
  by (simp add: simulated_price_def py_int_def Let_def)

lemma discard_fraction_towards_zero:
  "abs (of_int (discard_fraction x)) \<le> abs x \<and> abs (x - of_int (discard_fraction x)) < 1"
proof (cases "0 \<le> x")
  case True
  have "of_int \<lfloor>x\<rfloor> \<le> x" "x < of_int \<lfloor>x\<rfloor> + 1"
    by linarith+
  moreover have "(0::rat) \<le> of_int \<lfloor>x\<rfloor>" using True by simp
  ultimately have "abs (of_int \<lfloor>x\<rfloor>) \<le> abs x \<and> abs (x - of_int \<lfloor>x\<rfloor>) < 1"
    by linarith
  with True show ?thesis by (simp only: discard_fraction_def if_True)
next
  case False
  have "x \<le> of_int \<lceil>x\<rceil>" "of_int \<lceil>x\<rceil> < x + 1"
    by linarith+
  moreover have "(of_int \<lceil>x\<rceil> :: rat) \<le> 0" using False by (simp add: ceiling_le_zero)
  ultimately have "abs (of_int \<lceil>x\<rceil>) \<le> abs x \<and> abs (x - of_int \<lceil>x\<rceil>) < 1"
    by linarith
  with False show ?thesis by (simp only: discard_fraction_def if_False)
qed

text \<open>Up to \<open>history_size = 50\<close> the linear factor of the increasing trend stays
  non-negative, and so does every generated price.\<close>

lemma py_int_nonneg: "0 \<le> x \<Longrightarrow> 0 \<le> py_int x"
  by (simp add: py_int_def)

lemma simulated_price_nonneg:
  assumes "0 \<le> cp" and "0 \<le> u" and "int i < n" and "n \<le> 50"
  shows "0 \<le> simulated_price trend n cp u i"
proof -
  have steps: "(0::rat) \<le> of_int (n - int i)" "(of_int (n - int i) :: rat) \<le> 50"
    using assms(3,4) by simp_all
  have noise: "0 \<le> uniform 0.98 1.02 u" "0 \<le> uniform 0.95 1.05 u"
    using assms(2) by (simp_all add: uniform_def)
  have inc: "(0::rat) \<le> 1.0 - (0.02 * of_int (n - int i))"
    using steps(2) by simp
  have dec: "(0::rat) \<le> 1.0 + (0.02 * of_int (n - int i))"
    using steps(1) by simp
  show ?thesis
    unfolding simulated_price_def Let_def
    using assms(1) noise inc dec
    by (auto intro!: py_int_nonneg mult_nonneg_nonneg)
qed

lemma generate_nonneg_upto_50:
  assumes "maxlen (price_queue self) = history_size self" and "history_size self \<le> 50"
      and "0 \<le> cp" and "\<And>i. 0 \<le> rnd i"
      and "p \<in> set (fst (generate_simulated_history self k rnd cp))"
  shows "0 \<le> p"
proof -
  from assms(5) obtain i where i: "i < nat (history_size self)"
    and p: "p = simulated_price (random_choice [''stable'', ''increasing'', ''decreasing''] k)
                  (history_size self) cp (rnd i) i"
    by (auto simp: generate_closed_form [OF assms(1)] Let_def)
  from i have "int i < history_size self" by simp
  with assms(2,3,4) show ?thesis unfolding p by (intro simulated_price_nonneg) simp_all
qed


section \<open>The claims\<close>

subsection \<open>C1: threshold boundaries on a constant history\<close>

text \<open>
  C1, as stated, expects the percentage tiers at 94 and 98. On the history of fifteen
  entries 100 the price 94 is below the history minimum, the first test of the chain, so
  the result is the BUY NOW tier and not the BUY tier with the text for 6.0 percent.
\<close>

theorem threshold_94_is_buy_now:
  "analyze_recommendation
     \<lparr>history_size = 15, price_queue = \<lparr>items = replicate 15 100, maxlen = 15\<rparr>\<rparr> 94
   = Inr (label_buy_now, ''Lowest price in recent history! Great deal.'')
   \<and> label_buy_now \<noteq> label_buy"
  by code_simp

text \<open>
  C1 (amended): for an analyzer whose history is exactly fifteen entries all equal to 100,
  \<open>analyze_recommendation 94\<close> and \<open>analyze_recommendation 98\<close> both return the BUY NOW
  tier with the lowest-price explanation (both prices are below the minimum 100);
  \<open>analyze_recommendation 111\<close> returns the WAIT tier of a high price with an explanation
  containing 11.0, one decimal place; \<open>analyze_recommendation 105\<close> returns the default
  WAIT tier with the generic explanation.
\<close>

theorem threshold_boundaries_constant_history:
  assumes "get_history self = replicate 15 100"
  shows "analyze_recommendation self 94 =
           Inr (label_buy_now, ''Lowest price in recent history! Great deal.'')
       \<and> analyze_recommendation self 98 =
           Inr (label_buy_now, ''Lowest price in recent history! Great deal.'')
       \<and> analyze_recommendation self 111 =
           Inr (label_wait_high, ''Price is 11.0% above average. Likely to drop.'')
       \<and> analyze_recommendation self 105 =
           Inr (label_wait, ''Price is average. You might find a better deal soon.'')"
proof -
  have avg: "mean (get_history self) = Inr 100" and m: "min_py (get_history self) = Inr 100"
    by (simp_all only: assms mean_replicate_100 min_py_replicate_100)
  have nz: "(100::rat) \<noteq> 0" by simp
  show ?thesis
    by (simp add: analyze_nonempty [OF avg nz m] format_1f_11)
qed

theorem threshold_boundaries_constant_history_witness:
  "get_history \<lparr>history_size = 15, price_queue = \<lparr>items = replicate 15 100, maxlen = 15\<rparr>\<rparr>
     = replicate 15 100
   \<and> analyze_recommendation
        \<lparr>history_size = 15, price_queue = \<lparr>items = replicate 15 100, maxlen = 15\<rparr>\<rparr> 111
     = Inr (label_wait_high, ''Price is 11.0% above average. Likely to drop.'')"
  using threshold_boundaries_constant_history
    [of "\<lparr>history_size = 15, price_queue = \<lparr>items = replicate 15 100, maxlen = 15\<rparr>\<rparr>"]
  by (simp add: get_history_def)

subsection \<open>C2: the minimum-price check\<close>




subsection \<open>C3: the capacity invariant\<close>



subsection \<open>C4: the empty history\<close>

text \<open>
  C4: for every current price \<open>x\<close>, \<open>analyze_recommendation x\<close> on an analyzer whose
  history is empty returns exactly the pair UNKNOWN, Not enough data. Nothing else is
  evaluated: the mean, the minimum and the maximum of the empty history would each raise.
\<close>

theorem analyze_empty_history:
  assumes "get_history self = []"
  shows "analyze_recommendation self x = Inr (''UNKNOWN'', ''Not enough data'')
       \<and> mean (get_history self) = Inl StatisticsError
       \<and> min_py (get_history self) = Inl ValueError
       \<and> max_py (get_history self) = Inl ValueError"
  using assms
  by (simp add: analyze_recommendation_def get_history_def mean_def min_py_def max_py_def)

theorem analyze_empty_history_witness:
  "PriceAnalyzer_init 15 =
     Inr \<lparr>history_size = 15, price_queue = \<lparr>items = [], maxlen = 15\<rparr>\<rparr>
   \<and> get_history \<lparr>history_size = 15, price_queue = \<lparr>items = [], maxlen = 15\<rparr>\<rparr> = []
   \<and> analyze_recommendation
        \<lparr>history_size = 15, price_queue = \<lparr>items = [], maxlen = 15\<rparr>\<rparr> 42
       = Inr (''UNKNOWN'', ''Not enough data'')"
proof -
  let ?a = "\<lparr>history_size = 15, price_queue = \<lparr>items = [], maxlen = 15\<rparr>\<rparr>"
  have e: "get_history ?a = []" by (simp add: get_history_def)
  from analyze_empty_history [OF e, of 42] e show ?thesis
    by (simp add: PriceAnalyzer_init_def deque_new_def)
qed

subsection \<open>C5: a history whose mean is zero\<close>

text \<open>
  C5 asks for a guarded division. The source divides by the mean without a test: after
  \<open>generate_simulated_history 0\<close> on a default analyzer every entry is 0, whatever the
  trend and the draws, and \<open>analyze_recommendation\<close> raises ZeroDivisionError for every
  current price.
\<close>

theorem zero_average_raises:
  "PriceAnalyzer_init 15 =
     Inr \<lparr>history_size = 15, price_queue = \<lparr>items = [], maxlen = 15\<rparr>\<rparr>
   \<and> get_history (snd (generate_simulated_history
        \<lparr>history_size = 15, price_queue = \<lparr>items = [], maxlen = 15\<rparr>\<rparr> k rnd 0))
     = replicate 15 0
   \<and> analyze_recommendation
       (snd (generate_simulated_history
          \<lparr>history_size = 15, price_queue = \<lparr>items = [], maxlen = 15\<rparr>\<rparr> k rnd 0)) x
     = Inl ZeroDivisionError"
proof -
  let ?a = "\<lparr>history_size = 15, price_queue = \<lparr>items = [], maxlen = 15\<rparr>\<rparr>"
  have "maxlen (price_queue ?a) = history_size ?a" by simp
  then have h: "get_history (snd (generate_simulated_history ?a k rnd 0)) =
      map (\<lambda>i. 0) [0..<15]"
    by (simp add: generate_closed_form Let_def get_history_def simulated_price_zero)
  then have "analyze_recommendation (snd (generate_simulated_history ?a k rnd 0)) x =
      Inl ZeroDivisionError"
    by (intro analyze_zero_sum) simp_all
  moreover have "map (\<lambda>i. 0::int) [0..<15] = replicate 15 0"
    by (simp add: map_replicate_const)
  ultimately show ?thesis using h by (simp add: PriceAnalyzer_init_def deque_new_def)
qed

subsection \<open>C6: the generated entries\<close>



subsection \<open>C7: reading the history\<close>

text \<open>
  C7: \<open>get_history\<close> on a freshly constructed analyzer is empty; after
  \<open>generate_simulated_history\<close> it equals the list that call returned; a second call
  gives the same list and the same analyzer as if the first had not happened, so nothing
  of the first result is left; and the stored entries are in generation order, entry
  \<open>i\<close> being the price of loop index \<open>i\<close>.
\<close>

theorem get_history_after_generate:
  assumes "PriceAnalyzer_init n = Inr a0"
  shows "get_history a0 = []
       \<and> get_history (snd (generate_simulated_history self k rnd cp)) =
           fst (generate_simulated_history self k rnd cp)
       \<and> generate_simulated_history
           (snd (generate_simulated_history self k' rnd' cp')) k rnd cp =
           generate_simulated_history self k rnd cp
       \<and> get_history (snd (generate_simulated_history (generate_calls a0 earlier) k rnd cp)) =
           map (\<lambda>i. simulated_price
                       (random_choice [''stable'', ''increasing'', ''decreasing''] k)
                       n cp (rnd i) i) [0..<nat n]"
proof -
  let ?a = "generate_calls a0 earlier"
  from init_invar [OF assms] have fresh: "get_history a0 = []"
    by (simp add: get_history_def)
  have "get_history (snd (generate_simulated_history self k rnd cp)) =
           fst (generate_simulated_history self k rnd cp)"
    by (simp add: generate_simulated_history_def get_history_def Let_def)
  moreover have "get_history (snd (generate_simulated_history ?a k rnd cp)) =
           map (\<lambda>i. simulated_price
                       (random_choice [''stable'', ''increasing'', ''decreasing''] k)
                       n cp (rnd i) i) [0..<nat n]"
    by (simp add: generate_closed_form [OF constructed_invar(1) [OF assms]]
        constructed_invar(2) [OF assms] Let_def get_history_def)
  ultimately show ?thesis using fresh generate_forgets by simp
qed

theorem get_history_after_generate_witness:
  "PriceAnalyzer_init 3 = Inr \<lparr>history_size = 3, price_queue = \<lparr>items = [], maxlen = 3\<rparr>\<rparr>
   \<and> get_history \<lparr>history_size = 3, price_queue = \<lparr>items = [], maxlen = 3\<rparr>\<rparr> = []
   \<and> get_history (snd (generate_simulated_history
         (generate_calls \<lparr>history_size = 3, price_queue = \<lparr>items = [], maxlen = 3\<rparr>\<rparr>
            [(2, \<lambda>i. 1 / 2, 40)])
         1 (\<lambda>i. 1 / 4) 95)) = [88, 90, 92]"
proof -
  have h: "PriceAnalyzer_init 3 =
      Inr \<lparr>history_size = 3, price_queue = \<lparr>items = [], maxlen = 3\<rparr>\<rparr>"
    by (simp add: PriceAnalyzer_init_def deque_new_def)
  have "map (\<lambda>i. simulated_price
                    (random_choice [''stable'', ''increasing'', ''decreasing''] 1)
                    3 95 (1 / 4) i) [0..<nat 3] = [88, 90, 92]"
    by code_simp
  note ev = this
  note inst = get_history_after_generate
    [OF h, where earlier = "[(2, \<lambda>i. 1 / 2, 40)]" and k = 1 and rnd = "\<lambda>i. 1 / 4" and cp = 95]
  from inst have fresh:
    "get_history \<lparr>history_size = 3, price_queue = \<lparr>items = [], maxlen = 3\<rparr>\<rparr> = []"
    by (rule conjunct1)
  note stored = inst [THEN conjunct2, THEN conjunct2, THEN conjunct2]
  from h fresh stored ev show ?thesis by (simp only: simp_thms)
qed

subsection \<open>C8: the sign of the generated prices\<close>

text \<open>
  C8 asks for non-negative entries for every positive \<open>history_size\<close>. With
  \<open>history_size = 100\<close>, the increasing trend and the current price 100, the factor of the
  oldest entry is \<open>1.0 - 0.02 * 100 = - 1\<close>, and for every draw in the unit interval the
  first stored price is at most \<open>- 98\<close>.
\<close>

theorem increasing_trend_negative_price:
  assumes "0 \<le> rnd 0" and "rnd 0 \<le> 1"
  shows "PriceAnalyzer_init 100 =
           Inr \<lparr>history_size = 100, price_queue = \<lparr>items = [], maxlen = 100\<rparr>\<rparr>
       \<and> hd (fst (generate_simulated_history
                    \<lparr>history_size = 100, price_queue = \<lparr>items = [], maxlen = 100\<rparr>\<rparr>
                    1 rnd 100))
           \<le> - 98"
proof -
  let ?a = "\<lparr>history_size = 100, price_queue = \<lparr>items = [], maxlen = 100\<rparr>\<rparr>"
  have "maxlen (price_queue ?a) = history_size ?a" by simp
  then have "fst (generate_simulated_history ?a 1 rnd 100) =
      map (\<lambda>i. simulated_price ''increasing'' 100 100 (rnd i) i) [0..<100]"
    by (simp add: generate_closed_form Let_def random_choice_def)
  then have "hd (fst (generate_simulated_history ?a 1 rnd 100)) =
      simulated_price ''increasing'' 100 100 (rnd 0) 0"
    by (simp add: hd_map upt_conv_Cons)
  also have "\<dots> = py_int (- (98 + 4 * rnd 0))"
    by (simp add: simulated_price_def uniform_def Let_def algebra_simps)
  also have "\<dots> = - \<lfloor>98 + 4 * rnd 0\<rfloor>"
    using assms(1) by (simp add: py_int_def)
  also have "\<dots> \<le> - 98"
    using assms(1) by (simp add: le_floor_iff)
  finally show ?thesis by (simp add: PriceAnalyzer_init_def deque_new_def)
qed

theorem increasing_trend_negative_price_witness:
  "(0::rat) \<le> 1 / 2 \<and> (1 / 2 :: rat) \<le> 1
   \<and> hd (fst (generate_simulated_history
              \<lparr>history_size = 100, price_queue = \<lparr>items = [], maxlen = 100\<rparr>\<rparr>
              1 (\<lambda>i. 1 / 2) 100))
       \<le> - 98"
  using increasing_trend_negative_price [of "\<lambda>i. 1 / 2"] by simp

subsection \<open>C9: construction\<close>

text \<open>
  C9, as stated, has construction fail for \<open>history_size = 0\<close>. The constructor has no
  test of its own; the bounded deque accepts the bound 0 and an analyzer is created.
\<close>

theorem construct_zero_succeeds:
  "PriceAnalyzer_init 0 = Inr \<lparr>history_size = 0, price_queue = \<lparr>items = [], maxlen = 0\<rparr>\<rparr>"
  by (simp add: PriceAnalyzer_init_def deque_new_def)

text \<open>
  C9 (amended): construction with a negative \<open>history_size\<close> fails at construction time,
  with the ValueError of the bounded deque.
\<close>

theorem construct_negative_fails:
  assumes "n < 0"
  shows "PriceAnalyzer_init n = Inl ValueError"
  using assms by (simp add: PriceAnalyzer_init_def deque_new_def)

theorem construct_negative_fails_witness:
  "(- 1 :: int) < 0 \<and> PriceAnalyzer_init (- 1) = Inl ValueError"
  using construct_negative_fails [of "- 1"] by simp

subsection \<open>C10: the result depends on the mean and the minimum only\<close>

text \<open>
  C10: for any two non-empty histories with equal mean and equal minimum, the mean not
  zero, and the same current price, \<open>analyze_recommendation\<close> returns the same pair of
  label and explanation; the maximum plays no part.
\<close>

theorem analyze_depends_on_mean_min:
  assumes "get_history a \<noteq> []" and "get_history b \<noteq> []"
      and "mean (get_history a) = mean (get_history b)"
      and "mean (get_history a) \<noteq> Inr 0"
      and "min_py (get_history a) = min_py (get_history b)"
  shows "analyze_recommendation a current_price = analyze_recommendation b current_price
       \<and> (\<exists>r. analyze_recommendation a current_price = Inr r)"
proof -
  from assms(1) obtain avg where avg: "mean (get_history a) = Inr avg"
    by (auto simp: mean_def)
  with assms(4) have nz: "avg \<noteq> 0" by auto
  from assms(1) obtain m where m: "min_py (get_history a) = Inr m"
    by (auto simp: min_py_Min)
  from avg m assms(3,5)
  have b: "mean (get_history b) = Inr avg" "min_py (get_history b) = Inr m"
    by simp_all
  show ?thesis
    by (simp add: analyze_nonempty [OF avg nz m] analyze_nonempty [OF b(1) nz b(2)] Let_def)
qed

theorem analyze_depends_on_mean_min_witness:
  "max_py [90, 110, 100, 100] \<noteq> max_py [90, 105, 105, 100]
   \<and> analyze_recommendation
       \<lparr>history_size = 4, price_queue = \<lparr>items = [90, 110, 100, 100], maxlen = 4\<rparr>\<rparr> 93
     = analyze_recommendation
       \<lparr>history_size = 4, price_queue = \<lparr>items = [90, 105, 105, 100], maxlen = 4\<rparr>\<rparr> 93"
proof -
  let ?a = "\<lparr>history_size = 4, price_queue = \<lparr>items = [90, 110, 100, 100], maxlen = 4\<rparr>\<rparr>"
  let ?b = "\<lparr>history_size = 4, price_queue = \<lparr>items = [90, 105, 105, 100], maxlen = 4\<rparr>\<rparr>"
  have 1: "get_history ?a \<noteq> []" and 2: "get_history ?b \<noteq> []"
    by (simp_all add: get_history_def)
  have 3: "mean (get_history ?a) = mean (get_history ?b)"
    by (simp add: get_history_def mean_def)
  have 4: "mean (get_history ?a) \<noteq> Inr 0"
    by (simp add: get_history_def mean_def)
  have 5: "min_py (get_history ?a) = min_py (get_history ?b)"
    by (simp add: get_history_def min_py_def)
  have "max_py [90, 110, 100, 100] \<noteq> max_py [90, 105, 105, 100]"
    by (simp add: max_py_def)
  with analyze_depends_on_mean_min [OF 1 2 3 4 5, of 93] show ?thesis by simp
qed

end
